theory Spec2Isabelle
  imports Complex_Main "HOL-Library.Char_ord" "HOL-Library.List_Lexorder"
    "HOL-Library.Product_Lexorder"
begin

section \<open>Data model of \<^verbatim>\<open>Code/utility.py\<close>\<close>

text \<open>
  The three functions of \<^verbatim>\<open>utility.py\<close> take a pandas DataFrame. A cell of a DataFrame
  is a number, a string, the floating-point missing marker \<^verbatim>\<open>nan\<close> or Python's
  \<^verbatim>\<open>None\<close>. Python's booleans are the numbers 1 and 0. The three functions are
  modelled over exact real arithmetic. Where the rounding of float64 changes what the code
  does, the computation is repeated with the rounding \<open>f64\<close> of the last section of
  definitions.
\<close>

datatype cell = Num real | Str string | NaN | NoneVal

type_synonym row = "string \<Rightarrow> cell"

record dataframe =
  columns :: "string list"
  rows :: "row list"

datatype error = KeyError | ValueError | TypeError | DataError

text \<open>Results of numpy's float arithmetic: a finite value, an infinity or \<^verbatim>\<open>nan\<close>.\<close>

datatype npfloat = Finite real | PosInf | NegInf | NotANumber

text \<open>\<^verbatim>\<open>a / b\<close> on numpy integers: division by zero warns and gives \<^verbatim>\<open>nan\<close> or an
  infinity, it does not raise.\<close>

definition np_divide :: "int \<Rightarrow> int \<Rightarrow> npfloat" where
  "np_divide a b =
     (if b = 0 then (if a = 0 then NotANumber else if 0 < a then PosInf else NegInf)
      else Finite (real_of_int a / real_of_int b))"

fun np_add :: "npfloat \<Rightarrow> npfloat \<Rightarrow> npfloat" where
  "np_add NotANumber y = NotANumber"
| "np_add x NotANumber = NotANumber"
| "np_add (Finite a) (Finite b) = Finite (a + b)"
| "np_add PosInf NegInf = NotANumber"
| "np_add NegInf PosInf = NotANumber"
| "np_add PosInf y = PosInf"
| "np_add x PosInf = PosInf"
| "np_add NegInf y = NegInf"
| "np_add x NegInf = NegInf"

fun np_neg :: "npfloat \<Rightarrow> npfloat" where
  "np_neg (Finite a) = Finite (- a)"
| "np_neg PosInf = NegInf"
| "np_neg NegInf = PosInf"
| "np_neg NotANumber = NotANumber"

definition np_sub :: "npfloat \<Rightarrow> npfloat \<Rightarrow> npfloat" where
  "np_sub x y = np_add x (np_neg y)"

text \<open>\<^verbatim>\<open>Series.sum()\<close> of a float column: missing values (\<^verbatim>\<open>nan\<close>) are skipped, the
  sum of nothing is 0.\<close>

definition series_sum :: "npfloat list \<Rightarrow> npfloat" where
  "series_sum xs = foldr np_add (filter (\<lambda>x. x \<noteq> NotANumber) xs) (Finite 0)"


text \<open>pandas treats \<^verbatim>\<open>nan\<close> and \<^verbatim>\<open>None\<close> as missing.\<close>

definition isna :: "cell \<Rightarrow> bool" where
  "isna c = (c = NaN \<or> c = NoneVal)"

text \<open>The test of \<^verbatim>\<open>np.count_nonzero\<close>: a number other than 0, a string other than the
  empty one; \<^verbatim>\<open>nan\<close> is a float different from 0, \<^verbatim>\<open>None\<close> is false.\<close>

fun nonzero :: "cell \<Rightarrow> bool" where
  "nonzero (Num x) = (x \<noteq> 0)"
| "nonzero (Str s) = (s \<noteq> [])"
| "nonzero NaN = True"
| "nonzero NoneVal = False"

definition count_nonzero :: "cell list \<Rightarrow> int" where
  "count_nonzero cs = int (length (filter nonzero cs))"

text \<open>Group keys of \<^verbatim>\<open>groupby\<close> and \<^verbatim>\<open>pivot_table\<close>: the distinct values of the
  column, missing ones dropped, in sorted order (numbers before strings, strings by code
  point).\<close>

fun cell_key :: "cell \<Rightarrow> nat \<times> real \<times> string" where
  "cell_key (Num x) = (0, x, [])"
| "cell_key (Str s) = (1, 0, s)"
| "cell_key NaN = (2, 0, [])"
| "cell_key NoneVal = (3, 0, [])"

definition group_keys :: "cell list \<Rightarrow> cell list" where
  "group_keys cs = sort_key cell_key (remdups (filter (\<lambda>c. \<not> isna c) cs))"

definition group_rows :: "dataframe \<Rightarrow> string \<Rightarrow> cell \<Rightarrow> row list" where
  "group_rows df field k = filter (\<lambda>r. r field = k) (rows df)"

section \<open>\<^verbatim>\<open>piechart\<close>\<close>

text \<open>
  \<^verbatim>\<open>dataframe.pivot_table(index=field, values=unique_identifier, aggfunc=np.count_nonzero)\<close>:
  one line per group key, holding \<^verbatim>\<open>np.count_nonzero\<close> of the group's identifier cells.
\<close>

definition pivot_table :: "dataframe \<Rightarrow> string \<Rightarrow> string \<Rightarrow> (cell \<times> int) list" where
  "pivot_table df field uid =
     map (\<lambda>k. (k, count_nonzero (map (\<lambda>r. r uid) (group_rows df field k))))
       (group_keys (map (\<lambda>r. r field) (rows df)))"

text \<open>\<^verbatim>\<open>sort_values(by=unique_identifier, ascending=False)\<close>. numpy's default sort leaves
  the order of lines with equal counts open; the model keeps them in group order.\<close>

definition sort_values :: "(cell \<times> int) list \<Rightarrow> (cell \<times> int) list" where
  "sort_values xs = sort_key (\<lambda>p. - snd p) xs"

text \<open>The Python slice \<^verbatim>\<open>xs[:k]\<close>: a negative \<^verbatim>\<open>k\<close> counts from the end.\<close>

definition py_slice_to :: "int \<Rightarrow> 'a list \<Rightarrow> 'a list" where
  "py_slice_to k xs =
     (if 0 \<le> k then take (nat k) xs else take (length xs - nat (- k)) xs)"

record summary_row =
  label :: cell
  Count :: int
  Concentration :: npfloat

text \<open>The table \<^verbatim>\<open>pvt\<close> after line 26 (group key and count, sorted by count) and
  \<^verbatim>\<open>pvt.Count.sum()\<close>.\<close>

definition pvt_counts :: "dataframe \<Rightarrow> string \<Rightarrow> string \<Rightarrow> (cell \<times> int) list" where
  "pvt_counts df field uid = sort_values (pivot_table df field uid)"

definition grand_total :: "dataframe \<Rightarrow> string \<Rightarrow> string \<Rightarrow> int" where
  "grand_total df field uid = sum_list (map snd (pvt_counts df field uid))"

text \<open>The table \<^verbatim>\<open>pvt\<close> after line 27, with the concentration column.\<close>

definition pvt_table :: "dataframe \<Rightarrow> string \<Rightarrow> string \<Rightarrow> summary_row list" where
  "pvt_table df field uid =
     map (\<lambda>p. \<lparr>label = fst p, Count = snd p,
                Concentration = np_divide (snd p) (grand_total df field uid)\<rparr>)
       (pvt_counts df field uid)"

text \<open>
  \<^verbatim>\<open>piechart\<close> returns the table \<^verbatim>\<open>top_n_cats\<close> (the styling only formats it). A column
  that is not in the frame raises \<^verbatim>\<open>KeyError\<close>, and so does a frame without any group
  (no line with a non-missing \<^verbatim>\<open>field\<close>): the empty pivot has no count column to sort
  by. The pie chart is drawn from the returned table; \<^verbatim>\<open>plot.pie\<close> at line 32 raises
  \<^verbatim>\<open>ValueError\<close> on a negative value. Over exact arithmetic no concentration is
  negative. Over float64 the concentration of Others, \<^verbatim>\<open>1.0 - sum\<close>, carries the
  rounding of the sum and can be a small negative number: that case is computed with
  \<open>f64\<close> below and is not a result of this definition.
\<close>

definition piechart ::
  "dataframe \<Rightarrow> string \<Rightarrow> int \<Rightarrow> string \<Rightarrow> error + summary_row list" where
  "piechart df field cats uid =
     (if field \<notin> set (columns df) \<or> uid \<notin> set (columns df) then Inl KeyError
      else if pvt_counts df field uid = [] then Inl KeyError
      else
        let pvt = pvt_table df field uid;
            top_n_cats = py_slice_to cats pvt;
            others = \<lparr>label = Str ''Others'',
                      Count = grand_total df field uid - sum_list (map Count top_n_cats),
                      Concentration =
                        np_sub (Finite 1) (series_sum (map Concentration top_n_cats))\<rparr>
        in Inr (top_n_cats @ [others]))"

section \<open>\<^verbatim>\<open>barchart_continuous\<close>\<close>

text \<open>\<^verbatim>\<open>dataframe[binary_var] == 1\<close>: a cell equals a number when it is that number; a
  string, \<^verbatim>\<open>nan\<close> and \<^verbatim>\<open>None\<close> equal no number.\<close>

fun py_eq :: "cell \<Rightarrow> real \<Rightarrow> bool" where
  "py_eq (Num x) y = (x = y)"
| "py_eq c y = False"

definition dataset_true :: "dataframe \<Rightarrow> string \<Rightarrow> row list" where
  "dataset_true df binary_var = filter (\<lambda>r. py_eq (r binary_var) 1) (rows df)"

definition dataset_false :: "dataframe \<Rightarrow> string \<Rightarrow> row list" where
  "dataset_false df binary_var = filter (\<lambda>r. py_eq (r binary_var) 0) (rows df)"

text \<open>The numbers of a numeric column, missing values skipped.\<close>

fun nums :: "cell list \<Rightarrow> real list" where
  "nums [] = []"
| "nums (Num x # cs) = x # nums cs"
| "nums (c # cs) = nums cs"

fun is_str :: "cell \<Rightarrow> bool" where
  "is_str (Str s) = True"
| "is_str c = False"

definition numeric :: "cell list \<Rightarrow> bool" where
  "numeric cs = (\<not> list_ex is_str cs)"

text \<open>\<^verbatim>\<open>Series.min()\<close> and \<^verbatim>\<open>Series.max()\<close> skip missing values; without any value
  the result is \<^verbatim>\<open>nan\<close>, here \<open>None\<close>.\<close>

definition series_min :: "cell list \<Rightarrow> real option" where
  "series_min cs = (case nums cs of [] \<Rightarrow> None | x # xs \<Rightarrow> Some (fold min xs x))"

definition series_max :: "cell list \<Rightarrow> real option" where
  "series_max cs = (case nums cs of [] \<Rightarrow> None | x # xs \<Rightarrow> Some (fold max xs x))"

text \<open>Lines 67 and 68: the range after defaulting.\<close>

definition effective_min :: "dataframe \<Rightarrow> string \<Rightarrow> real option \<Rightarrow> real option" where
  "effective_min df field mn =
     (case mn of None \<Rightarrow> series_min (map (\<lambda>r. r field) (rows df)) | Some v \<Rightarrow> Some v)"

definition effective_max :: "dataframe \<Rightarrow> string \<Rightarrow> real option \<Rightarrow> real option" where
  "effective_max df field mx =
     (case mx of None \<Rightarrow> series_max (map (\<lambda>r. r field) (rows df)) | Some v \<Rightarrow> Some v)"

text \<open>\<^verbatim>\<open>np.linspace(start, stop, num)\<close> for \<^verbatim>\<open>num >= 0\<close>: the step is
  \<^verbatim>\<open>(stop - start) / (num - 1)\<close>, the points are \<^verbatim>\<open>start + i * step\<close> and the last
  point is set to \<^verbatim>\<open>stop\<close>; one point is \<^verbatim>\<open>start\<close> alone.\<close>

definition linspace :: "real \<Rightarrow> real \<Rightarrow> nat \<Rightarrow> real list" where
  "linspace start stop num =
     (if num = 0 then []
      else if num = 1 then [start]
      else map (\<lambda>i. start + real i * ((stop - start) / real (num - 1))) [0..<num - 1]
           @ [stop])"

text \<open>With a \<^verbatim>\<open>nan\<close> end (a column without values), every computed point is
  \<^verbatim>\<open>nan\<close>; the last of two or more points is \<^verbatim>\<open>stop\<close> itself.\<close>

definition custom_bucket_array :: "real option \<Rightarrow> real option \<Rightarrow> nat \<Rightarrow> real option list" where
  "custom_bucket_array lo hi num =
     (case (lo, hi) of
        (Some a, Some b) \<Rightarrow> map Some (linspace a b num)
      | _ \<Rightarrow> (if num = 0 then [] else if num = 1 then [None]
              else replicate (num - 1) None @ [hi]))"

text \<open>\<^verbatim>\<open>(np.diff(bins) < 0).any()\<close>: a comparison with \<^verbatim>\<open>nan\<close> is false.\<close>

fun decreases :: "real option list \<Rightarrow> bool" where
  "decreases (Some a # Some b # bs) = (b < a \<or> decreases (Some b # bs))"
| "decreases (a # b # bs) = decreases (b # bs)"
| "decreases bs = False"

fun reals :: "real option list \<Rightarrow> real list" where
  "reals [] = []"
| "reals (Some a # bs) = a # reals bs"
| "reals (None # bs) = reals bs"

text \<open>
  The bucket of one value under \<^verbatim>\<open>pd.cut(x, bins)\<close> with its defaults
  (\<^verbatim>\<open>right=True\<close>, \<^verbatim>\<open>include_lowest=False\<close>):
  \<^verbatim>\<open>ids = bins.searchsorted(x, side='left')\<close> is the number of boundaries below the
  value, and the value is missing from the result when \<^verbatim>\<open>ids == 0\<close>, when
  \<^verbatim>\<open>ids == len(bins)\<close> or when it is missing itself; otherwise it lies in bucket
  \<^verbatim>\<open>ids - 1\<close>.
\<close>

fun cut_value :: "real list \<Rightarrow> cell \<Rightarrow> nat option" where
  "cut_value bins (Num v) =
     (let ids = length (filter (\<lambda>b. b < v) bins)
      in if ids = 0 \<or> ids = length bins then None else Some (ids - 1))"
| "cut_value bins c = None"

text \<open>
  \<^verbatim>\<open>pd.cut\<close> raises \<^verbatim>\<open>ValueError\<close> when the boundaries decrease somewhere, when
  two of them are equal (unless there are exactly two boundaries), and when the interval
  labels cannot be built because a boundary is \<^verbatim>\<open>nan\<close>. With fewer than two
  boundaries there is no bucket and every value stays unassigned.
\<close>

definition pd_cut :: "cell list \<Rightarrow> real option list \<Rightarrow> error + nat option list" where
  "pd_cut x bins =
     (if decreases bins then Inl ValueError
      else if length (remdups bins) < length bins \<and> length bins \<noteq> 2 then Inl ValueError
      else if 2 \<le> length bins \<and> None \<in> set bins then Inl ValueError
      else Inr (map (cut_value (reals bins)) x))"

text \<open>
  The categories of the result are intervals between rounded boundaries. \<^verbatim>\<open>pd.cut\<close>
  bins with the boundaries as they are, and builds the interval index from
  \<^verbatim>\<open>_round_frac(b, precision)\<close> of every boundary \<^verbatim>\<open>b\<close>: \<^verbatim>\<open>np.around\<close> to
  \<^verbatim>\<open>precision\<close> decimals, or to \<^verbatim>\<open>precision\<close> significant digits when
  \<^verbatim>\<open>abs(b) < 1\<close>. The precision is the first of 3, ..., 19 that keeps the rounded
  boundaries distinct, and 3 when there is none. \<^verbatim>\<open>np.around\<close> rounds halves to the
  even neighbour.
\<close>

definition rint :: "real \<Rightarrow> int" where
  "rint y = (let f = \<lfloor>y\<rfloor>; d = y - of_int f
             in if d < 1 / 2 then f else if 1 / 2 < d then f + 1
                else if even f then f else f + 1)"

definition around :: "real \<Rightarrow> int \<Rightarrow> real" where
  "around x digits = of_int (rint (x * 10 ^ nat digits)) / 10 ^ nat digits"

text \<open>\<^verbatim>\<open>-floor(log10(x))\<close> for \<open>0 < x < 1\<close>: the number of multiplications by 10 that
  bring \<open>x\<close> to 1 or above. The fuel exceeds the decimal exponent of every float64.\<close>

fun leading :: "nat \<Rightarrow> real \<Rightarrow> int" where
  "leading 0 x = 0"
| "leading (Suc k) x = (if 1 \<le> x then 0 else leading k (10 * x) + 1)"

definition round_frac :: "int \<Rightarrow> real \<Rightarrow> real" where
  "round_frac precision x =
     (if x = 0 then x
      else if \<bar>x\<bar> < 1 then around x (leading 400 \<bar>x\<bar> - 1 + precision)
      else around x precision)"

definition infer_precision :: "real list \<Rightarrow> int" where
  "infer_precision bins =
     (case find (\<lambda>p. distinct (map (round_frac p) bins)) [3..19] of
        Some p \<Rightarrow> p | None \<Rightarrow> 3)"

definition format_labels :: "real list \<Rightarrow> real list" where
  "format_labels bins = map (round_frac (infer_precision bins)) bins"

text \<open>\<^verbatim>\<open>IntervalIndex.from_breaks\<close>: interval \<open>i\<close> is \<open>(breaks ! i, breaks ! (i + 1)]\<close>.\<close>

definition intervals :: "real list \<Rightarrow> (real \<times> real) list" where
  "intervals breaks = zip breaks (tl breaks)"

text \<open>\<^verbatim>\<open>groupby(field).size()\<close> has one entry per bucket, empty buckets included;
  \<^verbatim>\<open>dataset[field].count()\<close> counts the assigned values.\<close>

definition group_size :: "nat option list \<Rightarrow> nat \<Rightarrow> int" where
  "group_size cs i = int (length (filter (\<lambda>c. c = Some i) cs))"

definition series_count :: "nat option list \<Rightarrow> int" where
  "series_count cs = int (length (filter (\<lambda>c. c \<noteq> None) cs))"

definition bar_heights :: "nat option list \<Rightarrow> nat \<Rightarrow> npfloat list" where
  "bar_heights cs m = map (\<lambda>i. np_divide (group_size cs i) (series_count cs)) [0..<m]"

text \<open>What \<^verbatim>\<open>barchart_continuous\<close> hands to the chart: the boundaries it bins with,
  the categories (the buckets, between rounded boundaries), the bucket of every line of the
  two subsets and the heights of the two series of bars.\<close>

record distribution =
  edges :: "real list"
  categories :: "(real \<times> real) list"
  cut_true :: "nat option list"
  cut_false :: "nat option list"
  bars_true :: "npfloat list"
  bars_false :: "npfloat list"

text \<open>
  The function has no check of its own: every failure is an exception of pandas or
  numpy. A column that is not in the frame raises \<^verbatim>\<open>KeyError\<close>; a string in the
  continuous field cannot be compared with a number (\<^verbatim>\<open>TypeError\<close>);
  \<^verbatim>\<open>np.linspace\<close> raises \<^verbatim>\<open>ValueError\<close> for a negative \<^verbatim>\<open>n\<close>.
\<close>

definition barchart_continuous ::
  "dataframe \<Rightarrow> string \<Rightarrow> string \<Rightarrow> int \<Rightarrow> real option \<Rightarrow> real option
     \<Rightarrow> error + distribution" where
  "barchart_continuous df field binary_var n mn mx =
     (if binary_var \<notin> set (columns df) \<or> field \<notin> set (columns df) then Inl KeyError
      else if \<not> numeric (map (\<lambda>r. r field) (rows df)) then Inl TypeError
      else if n < 0 then Inl ValueError
      else
        let bins = custom_bucket_array (effective_min df field mn)
                     (effective_max df field mx) (nat n)
        in case pd_cut (map (\<lambda>r. r field) (dataset_true df binary_var)) bins of
             Inl e \<Rightarrow> Inl e
           | Inr ct \<Rightarrow>
              (case pd_cut (map (\<lambda>r. r field) (dataset_false df binary_var)) bins of
                 Inl e \<Rightarrow> Inl e
               | Inr cf \<Rightarrow>
                   let cats = intervals (format_labels (reals bins))
                   in Inr \<lparr>edges = reals bins, categories = cats,
                           cut_true = ct, cut_false = cf,
                           bars_true = bar_heights ct (length cats),
                           bars_false = bar_heights cf (length cats)\<rparr>))"

section \<open>\<^verbatim>\<open>barchart_categorical\<close>\<close>




section \<open>float64 arithmetic\<close>

text \<open>
  A float64 operation returns the exact result rounded to the nearest number with a
  significand of 53 bits, halves to the even neighbour. \<open>binade fuel x\<close> is the exponent
  \<open>e\<close> with \<open>2 ^ e \<le> x < 2 ^ (e + 1)\<close>, found by halving or doubling \<open>x\<close>; the fuel exceeds
  the exponent range of float64. Below \<open>2 ^ (- 1022)\<close> the spacing stays that of the
  smallest binade. Overflow is not modelled: the definition is the rounding of float64 for
  results below \<open>2 ^ 1024\<close> in magnitude.
\<close>

definition pow2 :: "int \<Rightarrow> real" where
  "pow2 e = (if 0 \<le> e then 2 ^ nat e else 1 / 2 ^ nat (- e))"

fun binade :: "nat \<Rightarrow> real \<Rightarrow> int" where
  "binade 0 x = 0"
| "binade (Suc k) x =
     (if 2 \<le> x then binade k (x / 2) + 1 else if x < 1 then binade k (2 * x) - 1 else 0)"

definition f64 :: "real \<Rightarrow> real" where
  "f64 x = (if x = 0 then 0
            else let u = pow2 (max (binade 1100 \<bar>x\<bar>) (- 1022) - 52)
                 in sgn x * (of_int (rint (\<bar>x\<bar> / u)) * u))"

definition fadd :: "real \<Rightarrow> real \<Rightarrow> real" where
  "fadd a b = f64 (a + b)"

definition fsub :: "real \<Rightarrow> real \<Rightarrow> real" where
  "fsub a b = f64 (a - b)"


definition fdiv :: "real \<Rightarrow> real \<Rightarrow> real" where
  "fdiv a b = f64 (a / b)"


section \<open>Example frames\<close>

definition mk_row :: "(string \<times> cell) list \<Rightarrow> row" where
  "mk_row kvs = (\<lambda>c. case map_of kvs c of Some v \<Rightarrow> v | None \<Rightarrow> NaN)"

definition car :: "string \<Rightarrow> cell \<Rightarrow> row" where
  "car colour vin = mk_row [(''color'', Str colour), (''VIN'', vin)]"

text \<open>The example of the specification: red six times, blue three times, green once.\<close>

definition colors :: dataframe where
  "colors = \<lparr>columns = [''color'', ''VIN''],
     rows = [car ''red'' (Str ''a''), car ''blue'' (Str ''b''), car ''red'' (Str ''c''),
             car ''red'' (Str ''d''), car ''green'' (Str ''e''), car ''blue'' (Str ''f''),
             car ''red'' (Str ''g''), car ''red'' (Str ''h''), car ''blue'' (Str ''i''),
             car ''red'' (Str ''j'')]\<rparr>"

definition colors_table :: "summary_row list" where
  "colors_table =
     [\<lparr>label = Str ''red'', Count = 6, Concentration = Finite (3 / 5)\<rparr>,
      \<lparr>label = Str ''blue'', Count = 3, Concentration = Finite (3 / 10)\<rparr>,
      \<lparr>label = Str ''Others'', Count = 1, Concentration = Finite (1 / 10)\<rparr>]"



definition nan_table :: "summary_row list" where
  "nan_table =
     [\<lparr>label = Str ''red'', Count = 2, Concentration = Finite 1\<rparr>,
      \<lparr>label = Str ''Others'', Count = 0, Concentration = Finite 0\<rparr>]"

definition nan_vin :: dataframe where
  "nan_vin = \<lparr>columns = [''color'', ''VIN''],
     rows = [car ''red'' NaN, car ''red'' (Str ''a'')]\<rparr>"

text \<open>Thirteen cars with identifiers: four black, three blue, three red, three white.\<close>

definition quarters :: dataframe where
  "quarters = \<lparr>columns = [''color'', ''VIN''],
     rows = [car ''black'' (Str ''a''), car ''blue'' (Str ''b''), car ''red'' (Str ''c''),
             car ''white'' (Str ''d''), car ''black'' (Str ''e''), car ''blue'' (Str ''f''),
             car ''red'' (Str ''g''), car ''white'' (Str ''h''), car ''black'' (Str ''i''),
             car ''blue'' (Str ''j''), car ''red'' (Str ''k''), car ''white'' (Str ''l''),
             car ''black'' (Str ''m'')]\<rparr>"





text \<open>A frame for \<^verbatim>\<open>barchart_continuous\<close>: the binary variable takes the values 1, 0, 2 and
  \<^verbatim>\<open>nan\<close>; the amounts of the true class are 0, 100, 40 and 150.\<close>

definition reading :: "cell \<Rightarrow> cell \<Rightarrow> row" where
  "reading amount flag = mk_row [(''amount'', amount), (''fraud'', flag)]"

definition readings :: dataframe where
  "readings = \<lparr>columns = [''amount'', ''fraud''],
     rows = [reading (Num 0) (Num 1), reading (Num 100) (Num 1), reading (Num 40) (Num 1),
             reading (Num 150) (Num 1), reading (Num 30) (Num 0), reading (Num 60) (Num 2),
             reading (Num 10) NaN]\<rparr>"

text \<open>The result for five boundaries between 0 and 100, for the default range with four
  boundaries, and for a single boundary.\<close>

definition readings_zoom :: distribution where
  "readings_zoom = \<lparr>edges = [0, 25, 50, 75, 100],
     categories = [(0, 25), (25, 50), (50, 75), (75, 100)],
     cut_true = [None, Some 3, Some 1, None], cut_false = [Some 1],
     bars_true = [Finite 0, Finite (1 / 2), Finite 0, Finite (1 / 2)],
     bars_false = [Finite 0, Finite 1, Finite 0, Finite 0]\<rparr>"

definition readings_default :: distribution where
  "readings_default = \<lparr>edges = [0, 50, 100, 150],
     categories = [(0, 50), (50, 100), (100, 150)],
     cut_true = [None, Some 1, Some 0, Some 2], cut_false = [Some 0],
     bars_true = [Finite (1 / 3), Finite (1 / 3), Finite (1 / 3)],
     bars_false = [Finite 1, Finite 0, Finite 0]\<rparr>"

definition readings_single :: distribution where
  "readings_single = \<lparr>edges = [0], categories = [],
     cut_true = [None, None, None, None], cut_false = [None],
     bars_true = [], bars_false = []\<rparr>"

section \<open>Auxiliary notions for the proofs\<close>

text \<open>The count the function computes for category \<open>k\<close>, and the count in the words of
  the specification (the lines of the category whose identifier is not missing).\<close>

definition nonzero_count :: "dataframe \<Rightarrow> string \<Rightarrow> string \<Rightarrow> cell \<Rightarrow> int" where
  "nonzero_count df field uid k =
     int (length (filter (\<lambda>x. x field = k \<and> nonzero (x uid)) (rows df)))"

definition non_missing_count :: "dataframe \<Rightarrow> string \<Rightarrow> string \<Rightarrow> cell \<Rightarrow> int" where
  "non_missing_count df field uid k =
     int (length (filter (\<lambda>x. x field = k \<and> \<not> isna (x uid)) (rows df)))"




section \<open>Facts about the arithmetic\<close>

lemma series_sum_Nil: "series_sum [] = Finite 0"
  by (simp add: series_sum_def)





lemma count_nonzero_nonneg: "0 \<le> count_nonzero cs"
  by (simp add: count_nonzero_def)

lemma pivot_table_nonneg: "p \<in> set (pivot_table df field uid) \<Longrightarrow> 0 \<le> snd p"
  by (auto simp: pivot_table_def count_nonzero_nonneg)

lemma set_sort_values: "set (sort_values xs) = set xs"
  by (simp add: sort_values_def)

lemma pvt_counts_nonneg: "p \<in> set (pvt_counts df field uid) \<Longrightarrow> 0 \<le> snd p"
  by (simp add: pvt_counts_def set_sort_values pivot_table_nonneg)




lemma set_py_slice_to: "set (py_slice_to k xs) \<subseteq> set xs"
  by (auto simp: py_slice_to_def dest: in_set_takeD)

lemma piechart_Inr:
  assumes "piechart df field cats uid = Inr t"
  shows "t = py_slice_to cats (pvt_table df field uid) @
    [\<lparr>label = Str ''Others'',
      Count = grand_total df field uid
        - sum_list (map Count (py_slice_to cats (pvt_table df field uid))),
      Concentration = np_sub (Finite 1)
        (series_sum (map Concentration (py_slice_to cats (pvt_table df field uid))))\<rparr>]"
  using assms by (simp add: piechart_def Let_def split: if_splits)

lemma sorted_desc_sort_values: "sorted_wrt (\<ge>) (map snd (sort_values xs))"
proof -
  have "sorted (map (\<lambda>p. - snd p) (sort_values xs))"
    by (simp add: sort_values_def)
  then show ?thesis
    by (simp add: sorted_wrt_map)
qed

lemma sorted_wrt_py_slice_to: "sorted_wrt P xs \<Longrightarrow> sorted_wrt P (py_slice_to k xs)"
  by (simp add: py_slice_to_def)

lemma map_py_slice_to: "map f (py_slice_to k xs) = py_slice_to k (map f xs)"
  by (simp add: py_slice_to_def take_map)

lemma Count_pvt_table: "map Count (pvt_table df field uid) = map snd (pvt_counts df field uid)"
  by (simp add: pvt_table_def comp_def)


lemma piechart_colors: "piechart colors ''color'' 2 ''VIN'' = Inr colors_table"
  by code_simp

lemma sum_list_take_le:
  fixes xs :: "int list"
  assumes "\<forall>x\<in>set xs. 0 \<le> x"
  shows "sum_list (take n xs) \<le> sum_list xs"
proof -
  have "sum_list xs = sum_list (take n xs) + sum_list (drop n xs)"
    by (metis append_take_drop_id sum_list.append)
  moreover have "0 \<le> sum_list (drop n xs)"
    using assms by (auto intro!: sum_list_nonneg dest: in_set_dropD)
  ultimately show ?thesis by simp
qed

lemma sum_list_py_slice_to_le:
  fixes xs :: "int list"
  shows "\<forall>x\<in>set xs. 0 \<le> x \<Longrightarrow> sum_list (py_slice_to k xs) \<le> sum_list xs"
  by (simp add: py_slice_to_def sum_list_take_le)

lemma py_slice_to_all: "int (length xs) \<le> k \<Longrightarrow> py_slice_to k xs = xs"
  by (simp add: py_slice_to_def)

lemma Count_top: "map Count (py_slice_to k (pvt_table df field uid)) =
    py_slice_to k (map snd (pvt_counts df field uid))"
  by (simp add: map_py_slice_to Count_pvt_table)

lemma retained_le_total:
  "sum_list (map Count (py_slice_to k (pvt_table df field uid))) \<le> grand_total df field uid"
  unfolding Count_top grand_total_def
  by (rule sum_list_py_slice_to_le) (auto simp: pvt_counts_nonneg)



lemma length_pvt_table: "length (pvt_table df field uid) = length (pvt_counts df field uid)"
  by (simp add: pvt_table_def)


lemma pivot_table_count:
  assumes "p \<in> set (pivot_table df field uid)"
  shows "snd p = nonzero_count df field uid (fst p)"
proof -
  from assms obtain k where p: "p = (k, count_nonzero (map (\<lambda>r. r uid) (group_rows df field k)))"
    by (auto simp: pivot_table_def)
  have "filter (\<lambda>x. nonzero (x uid)) (filter (\<lambda>r. r field = k) (rows df)) =
      filter (\<lambda>x. x field = k \<and> nonzero (x uid)) (rows df)"
    by (simp add: conj_commute)
  then show ?thesis
    by (simp add: p count_nonzero_def group_rows_def filter_map comp_def nonzero_count_def)
qed



lemma butlast_piechart:
  assumes "piechart df field cats uid = Inr t"
  shows "butlast t = py_slice_to cats (pvt_table df field uid)"
  unfolding piechart_Inr [OF assms] by simp

lemma colors_columns: "''color'' \<in> set (columns colors)" "''VIN'' \<in> set (columns colors)"
  by code_simp+













section \<open>Facts about the boundaries and the buckets\<close>

lemma length_linspace: "length (linspace lo hi n) = n"
  by (simp add: linspace_def)

lemma linspace_nth:
  assumes "2 \<le> n" and "i < n"
  shows "linspace lo hi n ! i = lo + real i * ((hi - lo) / real (n - 1))"
proof (cases "i < n - 1")
  case True
  then show ?thesis using assms by (simp add: linspace_def nth_append)
next
  case False
  with assms have i: "i = n - 1" by simp
  have "linspace lo hi n ! (n - 1) = hi"
    using assms by (simp add: linspace_def nth_append)
  moreover have "lo + real (n - 1) * ((hi - lo) / real (n - 1)) = hi"
    using assms by simp
  ultimately show ?thesis by (simp add: i)
qed


lemma linspace_hd: "2 \<le> n \<Longrightarrow> hd (linspace lo hi n) = lo"
  using linspace_nth [of n 0 lo hi] by (simp add: hd_conv_nth linspace_def)

lemma linspace_last: "2 \<le> n \<Longrightarrow> last (linspace lo hi n) = hi"
  by (simp add: linspace_def)

lemma linspace_first_two:
  assumes "2 \<le> n"
  shows "\<exists>bs. linspace lo hi n = lo # (lo + (hi - lo) / real (n - 1)) # bs"
proof -
  let ?xs = "linspace lo hi n"
  have len: "length ?xs = n" by (rule length_linspace)
  then obtain a b bs where xs: "?xs = a # b # bs"
    using assms by (cases ?xs; cases "tl ?xs") auto
  have "?xs ! 0 = lo" using linspace_nth [OF assms, of 0 lo hi] assms by simp
  moreover have "?xs ! 1 = lo + (hi - lo) / real (n - 1)"
    using linspace_nth [OF assms, of 1 lo hi] assms by simp
  ultimately show ?thesis by (simp add: xs)
qed

lemma decreases_first: "b < a \<Longrightarrow> decreases (Some a # Some b # bs)"
  by simp

lemma not_decreases_strict: "sorted_wrt (<) xs \<Longrightarrow> \<not> decreases (map Some xs)"
proof (induction xs rule: induct_list012)
  case 1
  show ?case by simp
next
  case (2 x)
  show ?case by simp
next
  case (3 x y zs)
  then show ?case by auto
qed

lemma reals_map_Some: "reals (map Some xs) = xs"
  by (induction xs) simp_all

lemma length_intervals: "length (intervals bs) = length bs - 1"
  by (simp add: intervals_def)

lemma length_format_labels: "length (format_labels bs) = length bs"
  by (simp add: format_labels_def)


lemma pd_cut_Inr: "pd_cut x bins = Inr ct \<Longrightarrow> ct = map (cut_value (reals bins)) x"
  by (simp add: pd_cut_def split: if_splits)

lemma pd_cut_strict:
  assumes "sorted_wrt (<) bs"
  shows "pd_cut x (map Some bs) = Inr (map (cut_value bs) x)"
proof -
  have d: "distinct bs" using assms by (simp add: strict_sorted_iff)
  have "distinct (map Some bs)" using d by (simp add: distinct_map)
  then have "remdups (map Some bs) = map Some bs" by (rule distinct_remdups_id)
  then have "length (remdups (map Some bs)) = length (map Some bs)" by (rule arg_cong)
  moreover have "None \<notin> set (map Some bs)" by auto
  moreover have "\<not> decreases (map Some bs)" using assms by (rule not_decreases_strict)
  ultimately show ?thesis by (simp add: pd_cut_def reals_map_Some)
qed

lemma pd_cut_decreasing: "b < a \<Longrightarrow> pd_cut x (Some a # Some b # bs) = Inl ValueError"
  by (simp add: pd_cut_def)

lemma pd_cut_equal:
  "bs \<noteq> [] \<Longrightarrow> pd_cut x (Some a # Some a # bs) = Inl ValueError"
proof -
  assume "bs \<noteq> []"
  have "length (remdups (Some a # Some a # bs)) \<le> length (Some a # bs)"
    using length_remdups_leq [of "Some a # bs"] by simp
  then have "length (remdups (Some a # Some a # bs)) < length (Some a # Some a # bs)" by simp
  moreover have "length (Some a # Some a # bs) \<noteq> 2" using \<open>bs \<noteq> []\<close> by simp
  ultimately show ?thesis unfolding pd_cut_def by simp
qed

lemma barchart_continuous_Inr:
  assumes "barchart_continuous df field binary_var n mn mx = Inr res"
  shows "\<exists>bs. edges res = bs \<and> categories res = intervals (format_labels bs) \<and>
    cut_true res = map (cut_value bs) (map (\<lambda>r. r field) (dataset_true df binary_var)) \<and>
    cut_false res = map (cut_value bs) (map (\<lambda>r. r field) (dataset_false df binary_var)) \<and>
    bars_true res = bar_heights (cut_true res) (length bs - 1) \<and>
    bars_false res = bar_heights (cut_false res) (length bs - 1)"
  using assms
  by (auto simp: barchart_continuous_def Let_def length_intervals length_format_labels
      split: if_splits sum.splits dest!: pd_cut_Inr)


lemma custom_bucket_array_Some:
  "custom_bucket_array (Some lo) (Some hi) n = map Some (linspace lo hi n)"
  by (simp add: custom_bucket_array_def)

lemma barchart_continuous_fails:
  assumes "binary_var \<in> set (columns df)" and "field \<in> set (columns df)"
    and "numeric (map (\<lambda>r. r field) (rows df))" and "0 \<le> n"
    and "effective_min df field mn = Some lo" and "effective_max df field mx = Some hi"
    and "\<And>x. pd_cut x (map Some (linspace lo hi (nat n))) = Inl ValueError"
  shows "barchart_continuous df field binary_var n mn mx = Inl ValueError"
  using assms
  by (simp add: barchart_continuous_def Let_def custom_bucket_array_Some)

lemma readings_columns:
  "''fraud'' \<in> set (columns readings)" "''amount'' \<in> set (columns readings)"
  by code_simp+

lemma readings_numeric: "numeric (map (\<lambda>r. r ''amount'') (rows readings))"
  by code_simp

lemma readings_zoom_eval:
  "barchart_continuous readings ''amount'' ''fraud'' 5 (Some 0) (Some 100) = Inr readings_zoom"
  by code_simp

lemma readings_default_eval:
  "barchart_continuous readings ''amount'' ''fraud'' 4 None None = Inr readings_default"
  by code_simp

lemma readings_default_range:
  "effective_min readings ''amount'' None = Some 0"
  "effective_max readings ''amount'' None = Some 150"
  by code_simp+

lemma py_eq_iff: "py_eq c y = (c = Num y)"
  by (cases c) auto








lemma linspace_bounds:
  assumes "2 \<le> n" and "lo < hi" and "b \<in> set (linspace lo hi n)"
  shows "lo \<le> b \<and> b \<le> hi"
proof -
  let ?s = "(hi - lo) / real (n - 1)"
  from assms(3) obtain i where i: "i < n" and b: "b = linspace lo hi n ! i"
    by (auto simp: in_set_conv_nth length_linspace)
  have b': "b = lo + real i * ?s" unfolding b by (rule linspace_nth [OF assms(1) i])
  have s: "0 < ?s" using assms by simp
  define x where "x = real i * ?s"
  have "0 \<le> real i * ?s" using s by (intro mult_nonneg_nonneg) auto
  then have x0: "0 \<le> x" by (simp only: x_def)
  have "real i * ?s \<le> real (n - 1) * ?s"
    using i s by (intro mult_right_mono) auto
  moreover have "real (n - 1) * ?s = hi - lo" using assms(1) by simp
  ultimately have "real i * ?s \<le> hi - lo" by (simp only:)
  then have x1: "x \<le> hi - lo" by (simp only: x_def)
  have "b = lo + x" by (simp only: b' x_def)
  with x0 x1 show ?thesis by simp
qed

lemma linspace_ends:
  assumes "2 \<le> n"
  shows "lo \<in> set (linspace lo hi n)" and "hi \<in> set (linspace lo hi n)"
proof -
  have ne: "linspace lo hi n \<noteq> []" using assms by (simp add: linspace_def)
  from hd_in_set [OF ne] show "lo \<in> set (linspace lo hi n)"
    by (simp add: linspace_hd [OF assms])
  from last_in_set [OF ne] show "hi \<in> set (linspace lo hi n)"
    by (simp add: linspace_last [OF assms])
qed

lemma length_filter_zero: "(length (filter P xs) = 0) = (\<forall>x\<in>set xs. \<not> P x)"
  by (simp add: filter_empty_conv)

lemma length_filter_all: "(length (filter P xs) = length xs) = (\<forall>x\<in>set xs. P x)"
proof -
  have "length (filter P xs) + length (filter (\<lambda>x. \<not> P x) xs) = length xs"
    by (rule sum_length_filter_compl)
  then have "(length (filter P xs) = length xs) = (length (filter (\<lambda>x. \<not> P x) xs) = 0)"
    by linarith
  then show ?thesis by (simp add: filter_empty_conv)
qed

lemma cut_value_assigned:
  assumes "2 \<le> n" and "lo < hi"
  shows "(cut_value (linspace lo hi n) (Num v) \<noteq> None) = (lo < v \<and> v \<le> hi)"
proof -
  let ?bs = "linspace lo hi n"
  have low: "(\<forall>b\<in>set ?bs. \<not> b < v) = (v \<le> lo)"
    using linspace_ends(1) [OF assms(1), of lo hi] linspace_bounds [OF assms]
    by (meson less_le_not_le linorder_not_less order_trans)
  have high: "(\<forall>b\<in>set ?bs. b < v) = (hi < v)"
    using linspace_ends(2) [OF assms(1), of hi lo] linspace_bounds [OF assms]
    by (meson le_less_trans)
  have "(cut_value ?bs (Num v) \<noteq> None) =
      (\<not> (length (filter (\<lambda>b. b < v) ?bs) = 0 \<or>
          length (filter (\<lambda>b. b < v) ?bs) = length ?bs))"
    by (simp add: Let_def)
  also have "\<dots> = (\<not> (v \<le> lo \<or> hi < v))"
    unfolding length_filter_zero length_filter_all low high ..
  finally show ?thesis by auto
qed

lemma readings_true_amounts:
  "map (\<lambda>r. r ''amount'') (dataset_true readings ''fraud'') = [Num 0, Num 100, Num 40, Num 150]"
  by code_simp

lemma reading_other: "reading (Num 60) (Num 2) ''fraud'' \<noteq> Num 1 \<and>
    reading (Num 60) (Num 2) ''fraud'' \<noteq> Num 0"
  by code_simp



lemma readings_class_sizes:
  "length (filter (\<lambda>r. r ''fraud'' = Num 1) (rows readings)) = 4"
  "length (filter (\<lambda>r. r ''fraud'' = Num 0) (rows readings)) = 1"
  by code_simp+

section \<open>Facts about the plain sum and about float64\<close>


lemma pow2_pos: "0 < pow2 e"
  by (simp add: pow2_def)

lemma pow2_Suc: "pow2 (e + 1) = 2 * pow2 e"
proof (cases "0 \<le> e")
  case True
  then show ?thesis by (simp add: pow2_def nat_add_distrib)
next
  case False
  then have "nat (- e) = Suc (nat (- (e + 1)))" by simp
  then show ?thesis using False by (auto simp: pow2_def)
qed

lemma binade_eq:
  "pow2 e \<le> x \<Longrightarrow> x < pow2 (e + 1) \<Longrightarrow> \<bar>e\<bar> \<le> int k \<Longrightarrow> binade k x = e"
proof (induction k arbitrary: x e)
  case 0
  then show ?case by simp
next
  case (Suc k)
  consider (pos) "0 < e" | (zero) "e = 0" | (neg) "e < 0" by linarith
  then show ?case
  proof cases
    case pos
    have "(2::real) \<le> 2 ^ nat e" using pos by (intro self_le_power) auto
    then have x2: "2 \<le> x" using Suc.prems(1) pos by (simp add: pow2_def)
    have a: "pow2 (e - 1) \<le> x / 2" using Suc.prems(1) pow2_Suc [of "e - 1"] by simp
    have b: "x / 2 < pow2 (e - 1 + 1)" using Suc.prems(2) pow2_Suc [of e] by simp
    have c: "\<bar>e - 1\<bar> \<le> int k" using Suc.prems(3) pos by simp
    from Suc.IH [OF a b c] x2 show ?thesis by simp
  next
    case zero
    with Suc.prems show ?thesis by (simp add: pow2_def)
  next
    case neg
    have "pow2 (e + 1) \<le> 1"
      using neg by (simp add: pow2_def divide_le_eq)
    then have x1: "x < 1" "\<not> 2 \<le> x" using Suc.prems(2) by simp_all
    have a: "pow2 (e + 1) \<le> 2 * x" using Suc.prems(1) pow2_Suc [of e] by simp
    have b: "2 * x < pow2 (e + 1 + 1)" using Suc.prems(2) pow2_Suc [of "e + 1"] by simp
    have c: "\<bar>e + 1\<bar> \<le> int k" using Suc.prems(3) neg by simp
    from Suc.IH [OF a b c] x1 show ?thesis by simp
  qed
qed

lemma f64_eq:
  assumes "pow2 e \<le> \<bar>x\<bar>" and "\<bar>x\<bar> < pow2 (e + 1)" and "- 1022 \<le> e" and "e \<le> 1100"
  shows "f64 x = sgn x * (of_int (rint (\<bar>x\<bar> / pow2 (e - 52))) * pow2 (e - 52))"
proof -
  have "\<bar>e\<bar> \<le> int 1100" using assms(3,4) by simp
  with assms(1,2) have "binade 1100 \<bar>x\<bar> = e" by (rule binade_eq)
  moreover have "x \<noteq> 0" using assms(1) pow2_pos [of e] by auto
  ultimately show ?thesis using assms(3) by (simp add: f64_def Let_def max_def)
qed



text \<open>The concentrations 4 / 13 and 3 / 13, their sum from left to right and its
  difference from 1.\<close>

lemma fdiv_4_13: "fdiv 4 13 = 1385722962267845 / 2 ^ 52"
  by (simp add: fdiv_def f64_eq [where e = "- 2"] pow2_def rint_def Let_def)

lemma fdiv_3_13: "fdiv 3 13 = 4157168886803535 / 2 ^ 54"
  by (simp add: fdiv_def f64_eq [where e = "- 3"] pow2_def rint_def Let_def)

lemma sum_13_first: "fadd 0 (1385722962267845 / 2 ^ 52) = 1385722962267845 / 2 ^ 52"
  by (simp add: fadd_def f64_eq [where e = "- 2"] pow2_def rint_def Let_def)

lemma sum_13_second:
  "fadd (1385722962267845 / 2 ^ 52) (4157168886803535 / 2 ^ 54) = 2425015183968729 / 2 ^ 52"
  by (simp add: fadd_def f64_eq [where e = "- 1"] pow2_def rint_def Let_def)

lemma sum_13_third:
  "fadd (2425015183968729 / 2 ^ 52) (4157168886803535 / 2 ^ 54) = 3464307405669613 / 2 ^ 52"
  by (simp add: fadd_def f64_eq [where e = "- 1"] pow2_def rint_def Let_def)

lemma sum_13_fourth:
  "fadd (3464307405669613 / 2 ^ 52) (4157168886803535 / 2 ^ 54) = 4503599627370497 / 2 ^ 52"
  by (simp add: fadd_def f64_eq [where e = 0] pow2_def rint_def Let_def)

lemma others_13: "fsub 1 (4503599627370497 / 2 ^ 52) = - (1 / 2 ^ 52)"
  by (simp add: fsub_def f64_eq [where e = "- 52"] pow2_def rint_def Let_def)

text \<open>The same for the concentrations 6 / 10, 3 / 10 and 1 / 10 of the frame \<open>colors\<close>: the
  difference is not 0 but \<open>2 ^ (- 53)\<close>.\<close>

lemma fdiv_6_10: "fdiv 6 10 = 5404319552844595 / 2 ^ 53"
  by (simp add: fdiv_def f64_eq [where e = "- 1"] pow2_def rint_def Let_def)

lemma fdiv_3_10: "fdiv 3 10 = 5404319552844595 / 2 ^ 54"
  by (simp add: fdiv_def f64_eq [where e = "- 2"] pow2_def rint_def Let_def)

lemma fdiv_1_10: "fdiv 1 10 = 3602879701896397 / 2 ^ 55"
  by (simp add: fdiv_def f64_eq [where e = "- 4"] pow2_def rint_def Let_def)

lemma sum_10_first: "fadd 0 (5404319552844595 / 2 ^ 53) = 5404319552844595 / 2 ^ 53"
  by (simp add: fadd_def f64_eq [where e = "- 1"] pow2_def rint_def Let_def)

lemma sum_10_second:
  "fadd (5404319552844595 / 2 ^ 53) (5404319552844595 / 2 ^ 54) = 2026619832316723 / 2 ^ 51"
  by (simp add: fadd_def f64_eq [where e = "- 1"] pow2_def rint_def Let_def)

lemma sum_10_third:
  "fadd (2026619832316723 / 2 ^ 51) (3602879701896397 / 2 ^ 55) = 9007199254740991 / 2 ^ 53"
  by (simp add: fadd_def f64_eq [where e = "- 1"] pow2_def rint_def Let_def)

lemma others_10: "fsub 1 (9007199254740991 / 2 ^ 53) = 1 / 2 ^ 53"
  by (simp add: fsub_def f64_eq [where e = "- 53"] pow2_def rint_def Let_def)

lemma colors_residue:
  "fsub 1 (fadd (fadd (fadd 0 (fdiv 6 10)) (fdiv 3 10)) (fdiv 1 10)) = 1 / 2 ^ 53"
  by (simp only: fdiv_6_10 fdiv_3_10 fdiv_1_10 sum_10_first sum_10_second sum_10_third others_10)









section \<open>Further facts about the three functions\<close>

lemma sorted_not_decreases: "\<not> decreases (map Some xs) \<Longrightarrow> sorted xs"
proof (induction xs rule: induct_list012)
  case 1
  show ?case by simp
next
  case (2 x)
  show ?case by simp
next
  case (3 x y zs)
  then show ?case by (auto simp: not_less)
qed

lemma pd_cut_accepts_strict:
  assumes "pd_cut x (map Some bs) = Inr ct" and "length bs \<noteq> 2"
  shows "sorted_wrt (<) bs"
proof -
  from assms have nd: "\<not> decreases (map Some bs)"
    and len: "\<not> length (remdups (map Some bs)) < length (map Some bs)"
    by (auto simp: pd_cut_def split: if_splits)
  from len have "length (remdups (map Some bs)) = length (map Some bs)"
    using length_remdups_leq [of "map Some bs"] by linarith
  then have "distinct (map Some bs)" by (simp only: length_remdups_eq remdups_id_iff_distinct)
  then have "distinct bs" by (simp add: distinct_map)
  with sorted_not_decreases [OF nd] show ?thesis by (simp add: strict_sorted_iff)
qed

text \<open>Four boundaries between 0 and 100: the categories are \<^verbatim>\<open>(0, 33.333]\<close>,
  \<^verbatim>\<open>(33.333, 66.667]\<close> and \<^verbatim>\<open>(66.667, 100]\<close>.\<close>

lemma thirds_categories:
  "intervals (format_labels (linspace 0 100 4)) =
     [(0, 33333 / 1000), (33333 / 1000, 66667 / 1000), (66667 / 1000, 100)]"
  by code_simp


lemma others_count:
  assumes "piechart df field cats uid = Inr t"
  shows "label (last t) = Str ''Others'' \<and>
    map Count (butlast t) = py_slice_to cats (map snd (pvt_counts df field uid)) \<and>
    Count (last t) = grand_total df field uid - sum_list (map Count (butlast t)) \<and>
    0 \<le> Count (last t) \<and>
    (int (length (pvt_counts df field uid)) \<le> cats \<longrightarrow> Count (last t) = 0)"
proof -
  let ?top = "py_slice_to cats (pvt_table df field uid)"
  have nonneg: "0 \<le> grand_total df field uid - sum_list (map Count ?top)"
    using retained_le_total [of cats df field uid] by simp
  have full: "grand_total df field uid - sum_list (map Count ?top) = 0"
    if "int (length (pvt_counts df field uid)) \<le> cats"
  proof -
    have "?top = pvt_table df field uid"
      using that by (simp add: py_slice_to_all length_pvt_table)
    then show ?thesis by (simp add: Count_pvt_table grand_total_def)
  qed
  show ?thesis
    unfolding piechart_Inr [OF assms] using nonneg full by (simp add: Count_top)
qed

lemma nonzero_not_None:
  "c \<noteq> Num 0 \<Longrightarrow> c \<noteq> Str [] \<Longrightarrow> nonzero c = (c \<noteq> NoneVal)"
  by (cases c) auto

lemma quarters_pvt_counts:
  "pvt_counts quarters ''color'' ''VIN'' =
     [(Str ''black'', 4), (Str ''blue'', 3), (Str ''red'', 3), (Str ''white'', 3)]"
  by code_simp

lemma piechart_nan_vin: "piechart nan_vin ''color'' 5 ''VIN'' = Inr nan_table"
  by code_simp


section \<open>Properties of \<^verbatim>\<open>piechart\<close>\<close>




text \<open>
  C9. The lines of the returned table are sorted by count in descending order, except for
  the synthetic Others line, which is always the last one.
\<close>

theorem rows_sorted_others_last:
  assumes "piechart df field cats uid = Inr t"
  shows "t \<noteq> [] \<and> label (last t) = Str ''Others'' \<and>
    sorted_wrt (\<ge>) (map Count (butlast t))"
proof -
  have "sorted_wrt (\<ge>) (map Count (pvt_table df field uid))"
    by (simp add: Count_pvt_table pvt_counts_def sorted_desc_sort_values)
  then have "sorted_wrt (\<ge>) (py_slice_to cats (map Count (pvt_table df field uid)))"
    by (rule sorted_wrt_py_slice_to)
  then show ?thesis
    by (simp add: piechart_Inr [OF assms] map_py_slice_to)
qed

theorem rows_sorted_others_last_witness:
  "piechart colors ''color'' 2 ''VIN'' = Inr colors_table \<and>
   (colors_table \<noteq> [] \<and> label (last colors_table) = Str ''Others'' \<and>
    sorted_wrt (\<ge>) (map Count (butlast colors_table)))"
  by (rule conjI [OF piechart_colors rows_sorted_others_last [OF piechart_colors]])

text \<open>
  C2. The claim asks that with \<^verbatim>\<open>cats\<close> at least the number of categories the Others
  line has count 0 and concentration 0 and that the call does not fail. The count of Others
  is an exact difference of integers (\<open>others_count\<close>). Its concentration is not taken from
  that count: line 29 computes \<^verbatim>\<open>1.0 - top_n_cats.Concentration.sum()\<close> on float64. For
  the thirteen cars of \<open>quarters\<close>, all with an identifier, and \<^verbatim>\<open>cats = 5\<close>, the counts
  are 4, 3, 3, 3; line 27 divides each by 13, the sum adds the four quotients from left to
  right, starting from 0, and line 29 subtracts it from 1. The concentration of Others is
  \<open>- 2 ^ (- 52)\<close>, a negative number, on which \<^verbatim>\<open>plot.pie\<close> at line 32 raises
  \<^verbatim>\<open>ValueError\<close>. (For the counts 6, 3, 1 of \<open>colors\<close> it is \<open>2 ^ (- 53)\<close>, by
  \<open>colors_residue\<close>: the call returns, with a concentration of Others that is not 0.)
\<close>

theorem others_concentration_negative:
  "pvt_counts quarters ''color'' ''VIN'' =
     [(Str ''black'', 4), (Str ''blue'', 3), (Str ''red'', 3), (Str ''white'', 3)] \<and>
   int (length (pvt_counts quarters ''color'' ''VIN'')) \<le> 5 \<and>
   grand_total quarters ''color'' ''VIN'' = 13 \<and>
   fsub 1 (fadd (fadd (fadd (fadd 0 (fdiv 4 13)) (fdiv 3 13)) (fdiv 3 13)) (fdiv 3 13)) =
     - (1 / 2 ^ 52)"
proof -
  have "fsub 1 (fadd (fadd (fadd (fadd 0 (fdiv 4 13)) (fdiv 3 13)) (fdiv 3 13)) (fdiv 3 13)) =
      - (1 / 2 ^ 52)"
    by (simp only: fdiv_4_13 fdiv_3_13 sum_13_first sum_13_second sum_13_third sum_13_fourth
        others_13)
  then show ?thesis
    by (simp add: quarters_pvt_counts grand_total_def)
qed

theorem others_concentration_negative_witness:
  "int (length (pvt_counts quarters ''color'' ''VIN'')) \<le> 5 \<and>
   fsub 1 (fadd (fadd (fadd (fadd 0 (fdiv 4 13)) (fdiv 3 13)) (fdiv 3 13)) (fdiv 3 13)) < 0"
proof -
  from others_concentration_negative have
    "int (length (pvt_counts quarters ''color'' ''VIN'')) \<le> 5"
    and "fsub 1 (fadd (fadd (fadd (fadd 0 (fdiv 4 13)) (fdiv 3 13)) (fdiv 3 13)) (fdiv 3 13)) =
      - (1 / 2 ^ 52)"
    by blast+
  then show ?thesis by simp
qed

text \<open>
  C3 (as amended). In a category none of whose identifiers is the number 0 or the empty
  string, the count of the category line is the number of lines of the category whose
  identifier is not \<^verbatim>\<open>None\<close>: a \<^verbatim>\<open>nan\<close> identifier is counted, not ignored, and no
  line with an identifier is left out.
\<close>

theorem count_of_identifiers:
  assumes "piechart df field cats uid = Inr t" and "r \<in> set (butlast t)"
    and "list_all (\<lambda>x. x uid \<noteq> Num 0 \<and> x uid \<noteq> Str []) (group_rows df field (label r))"
  shows "Count r =
    int (length (filter (\<lambda>x. x uid \<noteq> NoneVal) (group_rows df field (label r))))"
proof -
  have "r \<in> set (py_slice_to cats (pvt_table df field uid))"
    using assms(2) unfolding butlast_piechart [OF assms(1)] .
  then have "r \<in> set (pvt_table df field uid)"
    by (rule subsetD [OF set_py_slice_to])
  then obtain p where p: "p \<in> set (pvt_counts df field uid)"
    and r: "label r = fst p" "Count r = snd p"
    by (auto simp: pvt_table_def)
  from p have "p \<in> set (pivot_table df field uid)"
    by (simp add: pvt_counts_def set_sort_values)
  then have "snd p = nonzero_count df field uid (fst p)" by (rule pivot_table_count)
  then have c: "Count r =
      int (length (filter (\<lambda>x. nonzero (x uid)) (group_rows df field (label r))))"
    by (simp add: r nonzero_count_def group_rows_def conj_commute)
  have "filter (\<lambda>x. nonzero (x uid)) (group_rows df field (label r)) =
      filter (\<lambda>x. x uid \<noteq> NoneVal) (group_rows df field (label r))"
    using assms(3) by (intro filter_cong refl) (auto simp: list_all_iff nonzero_not_None)
  with c show ?thesis by simp
qed

theorem count_of_identifiers_witness:
  "piechart nan_vin ''color'' 5 ''VIN'' = Inr nan_table \<and>
   hd nan_table \<in> set (butlast nan_table) \<and>
   list_all (\<lambda>x. x ''VIN'' \<noteq> Num 0 \<and> x ''VIN'' \<noteq> Str [])
     (group_rows nan_vin ''color'' (Str ''red'')) \<and>
   Count (hd nan_table) =
     int (length (filter (\<lambda>x. x ''VIN'' \<noteq> NoneVal) (group_rows nan_vin ''color'' (Str ''red'')))) \<and>
   Count (hd nan_table) = 2"
proof -
  have m: "hd nan_table \<in> set (butlast nan_table)"
    and l: "label (hd nan_table) = Str ''red''" and c: "Count (hd nan_table) = 2"
    by (simp_all add: nan_table_def)
  have h: "list_all (\<lambda>x. x ''VIN'' \<noteq> Num 0 \<and> x ''VIN'' \<noteq> Str [])
      (group_rows nan_vin ''color'' (Str ''red''))"
    by code_simp
  then have h': "list_all (\<lambda>x. x ''VIN'' \<noteq> Num 0 \<and> x ''VIN'' \<noteq> Str [])
      (group_rows nan_vin ''color'' (label (hd nan_table)))"
    by (simp only: l)
  have "Count (hd nan_table) =
      int (length (filter (\<lambda>x. x ''VIN'' \<noteq> NoneVal)
        (group_rows nan_vin ''color'' (label (hd nan_table)))))"
    by (rule count_of_identifiers [OF piechart_nan_vin m h'])
  then have "Count (hd nan_table) =
      int (length (filter (\<lambda>x. x ''VIN'' \<noteq> NoneVal) (group_rows nan_vin ''color'' (Str ''red''))))"
    by (simp only: l)
  with piechart_nan_vin m h c show ?thesis by blast
qed

text \<open>
  The claim as stated fails on a missing identifier: of the two red lines one has the
  identifier \<^verbatim>\<open>nan\<close>, the count of red is 2 and the number of red lines with a
  non-missing identifier is 1.
\<close>

theorem count_of_identifiers_counterexample:
  "piechart nan_vin ''color'' 5 ''VIN'' = Inr nan_table \<and>
   Count (hd nan_table) = 2 \<and>
   non_missing_count nan_vin ''color'' ''VIN'' (Str ''red'') = 1"
  by code_simp

section \<open>Properties of \<^verbatim>\<open>barchart_categorical\<close>\<close>



section \<open>Properties of \<^verbatim>\<open>barchart_continuous\<close>\<close>

text \<open>
  C5 (as amended). The function has no parameter check and no error of its own; it fails
  where numpy or pandas raise. With both columns in the frame, a numeric field and a range
  \<open>lo\<close>, \<open>hi\<close> after defaulting, the call fails with \<^verbatim>\<open>ValueError\<close> whenever \<open>n\<close> is
  negative, whenever \<open>n\<close> is at least 2 and \<open>hi < lo\<close>, and whenever \<open>n\<close> is at least 3 and
  \<open>lo = hi\<close>.
\<close>

theorem invalid_parameters:
  assumes "binary_var \<in> set (columns df)" and "field \<in> set (columns df)"
    and "numeric (map (\<lambda>r. r field) (rows df))"
    and "effective_min df field mn = Some lo" and "effective_max df field mx = Some hi"
    and "n < 0 \<or> (2 \<le> n \<and> hi < lo) \<or> (3 \<le> n \<and> lo = hi)"
  shows "barchart_continuous df field binary_var n mn mx = Inl ValueError"
proof -
  consider (neg) "n < 0" | (dec) "2 \<le> n" "hi < lo" | (eq) "3 \<le> n" "lo = hi"
    using assms(6) by blast
  then show ?thesis
  proof cases
    case neg
    then show ?thesis using assms(1-3) by (simp add: barchart_continuous_def)
  next
    case dec
    then have n: "2 \<le> nat n" by simp
    from linspace_first_two [OF n] obtain bs where
      bs: "linspace lo hi (nat n) = lo # (lo + (hi - lo) / real (nat n - 1)) # bs"
      by blast
    have "(hi - lo) / real (nat n - 1) < 0"
      using dec n by (simp add: divide_neg_pos)
    then have "lo + (hi - lo) / real (nat n - 1) < lo" by simp
    then have "pd_cut x (map Some (linspace lo hi (nat n))) = Inl ValueError" for x
      unfolding bs by (simp add: pd_cut_decreasing)
    with assms(1-5) dec show ?thesis
      by (intro barchart_continuous_fails) simp_all
  next
    case eq
    then have n: "2 \<le> nat n" by simp
    from linspace_first_two [OF n] obtain bs where
      bs: "linspace lo hi (nat n) = lo # (lo + (hi - lo) / real (nat n - 1)) # bs"
      by blast
    have "length (linspace lo hi (nat n)) = nat n" by (rule length_linspace)
    then have "bs \<noteq> []" using eq unfolding bs by auto
    then have "pd_cut x (map Some (linspace lo hi (nat n))) = Inl ValueError" for x
      unfolding bs using eq by (simp add: pd_cut_equal)
    with assms(1-5) eq show ?thesis
      by (intro barchart_continuous_fails) simp_all
  qed
qed

theorem invalid_parameters_witness:
  "''fraud'' \<in> set (columns readings) \<and> ''amount'' \<in> set (columns readings) \<and>
   numeric (map (\<lambda>r. r ''amount'') (rows readings)) \<and>
   effective_min readings ''amount'' (Some 100) = Some 100 \<and>
   effective_max readings ''amount'' (Some 0) = Some 0 \<and>
   ((2::int) \<le> 5 \<and> (0::real) < 100) \<and>
   barchart_continuous readings ''amount'' ''fraud'' 5 (Some 100) (Some 0) = Inl ValueError"
proof -
  have lo: "effective_min readings ''amount'' (Some 100) = Some 100"
    by (simp add: effective_min_def)
  have hi: "effective_max readings ''amount'' (Some 0) = Some 0"
    by (simp add: effective_max_def)
  have c: "(5::int) < 0 \<or> ((2::int) \<le> 5 \<and> (0::real) < 100) \<or> ((3::int) \<le> 5 \<and> (100::real) = 0)"
    by simp
  have "barchart_continuous readings ''amount'' ''fraud'' 5 (Some 100) (Some 0) = Inl ValueError"
    by (rule invalid_parameters [OF readings_columns readings_numeric lo hi c])
  with readings_columns readings_numeric lo hi show ?thesis by simp
qed

text \<open>
  The claim as stated fails for \<open>n = 1\<close>: \<^verbatim>\<open>np.linspace\<close> returns the single point
  \<^verbatim>\<open>min\<close>, \<^verbatim>\<open>pd.cut\<close> accepts it, there is no bucket and every value is unassigned; the
  call returns with two empty series of bars.
\<close>

theorem invalid_parameters_counterexample:
  "barchart_continuous readings ''amount'' ''fraud'' 1 None None = Inr readings_single"
  by code_simp




text \<open>
  C6. The claim asks that every value of a subset in \<open>[min, max]\<close>, the end \<open>min\<close>
  included, is assigned to a bucket. \<^verbatim>\<open>pd.cut\<close> is called with its defaults, whose
  buckets are open on the left: by \<open>cut_value_assigned\<close> a value is assigned exactly when
  \<open>min < v \<le> max\<close>. With the default range, \<open>min\<close> is the smallest amount of the frame
  (0 here), and the line that holds it is left out of the true class: its bucket is
  \<open>None\<close>, while 100, 40 and 150 are assigned.
\<close>

theorem minimum_unassigned:
  "effective_min readings ''amount'' None = Some 0 \<and>
   effective_max readings ''amount'' None = Some 150 \<and>
   map (\<lambda>r. r ''amount'') (dataset_true readings ''fraud'') = [Num 0, Num 100, Num 40, Num 150] \<and>
   barchart_continuous readings ''amount'' ''fraud'' 4 None None = Inr readings_default \<and>
   cut_true readings_default = [None, Some 1, Some 0, Some 2]"
  by (simp add: readings_default_range readings_true_amounts readings_default_eval
      readings_default_def)

theorem minimum_unassigned_witness:
  "''fraud'' \<in> set (columns readings) \<and> ''amount'' \<in> set (columns readings) \<and>
   numeric (map (\<lambda>r. r ''amount'') (rows readings)) \<and>
   barchart_continuous readings ''amount'' ''fraud'' 4 None None = Inr readings_default \<and>
   hd (map (\<lambda>r. r ''amount'') (dataset_true readings ''fraud'')) = Num 0 \<and>
   hd (cut_true readings_default) = None"
proof -
  from minimum_unassigned have
    "barchart_continuous readings ''amount'' ''fraud'' 4 None None = Inr readings_default"
    and "hd (map (\<lambda>r. r ''amount'') (dataset_true readings ''fraud'')) = Num 0"
    and "hd (cut_true readings_default) = None"
    by simp_all
  with readings_columns readings_numeric show ?thesis by simp
qed

text \<open>
  C7. The true-class subset holds exactly the lines whose binary variable equals 1 and the
  false-class subset exactly those where it equals 0, in the order of the frame; a line
  with any other value of the binary variable (2, a missing value) is in neither subset.
  These are the lines the function cuts into buckets: whenever it returns, the two bucket
  columns have one entry per line of the respective subset.
\<close>

theorem binary_partition:
  "dataset_true df binary_var = filter (\<lambda>r. r binary_var = Num 1) (rows df) \<and>
   dataset_false df binary_var = filter (\<lambda>r. r binary_var = Num 0) (rows df) \<and>
   (\<forall>r. r binary_var \<noteq> Num 1 \<and> r binary_var \<noteq> Num 0 \<longrightarrow>
        r \<notin> set (dataset_true df binary_var) \<and> r \<notin> set (dataset_false df binary_var)) \<and>
   (\<forall>res. barchart_continuous df field binary_var n mn mx = Inr res \<longrightarrow>
        length (cut_true res) = length (filter (\<lambda>r. r binary_var = Num 1) (rows df)) \<and>
        length (cut_false res) = length (filter (\<lambda>r. r binary_var = Num 0) (rows df)))"
proof -
  have t: "dataset_true df binary_var = filter (\<lambda>r. r binary_var = Num 1) (rows df)"
    and f: "dataset_false df binary_var = filter (\<lambda>r. r binary_var = Num 0) (rows df)"
    by (simp_all add: dataset_true_def dataset_false_def py_eq_iff)
  have "length (cut_true res) = length (filter (\<lambda>r. r binary_var = Num 1) (rows df)) \<and>
      length (cut_false res) = length (filter (\<lambda>r. r binary_var = Num 0) (rows df))"
    if "barchart_continuous df field binary_var n mn mx = Inr res" for res
  proof -
    from barchart_continuous_Inr [OF that] obtain bs where
      "cut_true res = map (cut_value bs) (map (\<lambda>r. r field) (dataset_true df binary_var))"
      "cut_false res = map (cut_value bs) (map (\<lambda>r. r field) (dataset_false df binary_var))"
      by blast
    then show ?thesis by (simp add: t f)
  qed
  with t f show ?thesis by simp
qed

theorem binary_partition_witness:
  "reading (Num 60) (Num 2) ''fraud'' \<noteq> Num 1 \<and>
   reading (Num 60) (Num 2) ''fraud'' \<noteq> Num 0 \<and>
   reading (Num 60) (Num 2) \<notin> set (dataset_true readings ''fraud'') \<and>
   reading (Num 60) (Num 2) \<notin> set (dataset_false readings ''fraud'') \<and>
   barchart_continuous readings ''amount'' ''fraud'' 5 (Some 0) (Some 100) = Inr readings_zoom \<and>
   length (cut_true readings_zoom) = 4 \<and> length (cut_false readings_zoom) = 1"
proof -
  note p = binary_partition [of readings "''fraud''" "''amount''" 5 "Some 0" "Some 100"]
  from p reading_other have
    "reading (Num 60) (Num 2) \<notin> set (dataset_true readings ''fraud'') \<and>
     reading (Num 60) (Num 2) \<notin> set (dataset_false readings ''fraud'')"
    by blast
  moreover from p readings_zoom_eval have
    "length (cut_true readings_zoom) =
       length (filter (\<lambda>r. r ''fraud'' = Num 1) (rows readings)) \<and>
     length (cut_false readings_zoom) =
       length (filter (\<lambda>r. r ''fraud'' = Num 0) (rows readings))"
    by blast
  ultimately show ?thesis
    using reading_other readings_zoom_eval by (simp add: readings_class_sizes)
qed



end
